theory Spec2Isabelle
  imports Main
begin

section \<open>Data model of \<open>main.ts\<close>\<close>

text \<open>
  \<^verbatim>\<open>type Player = "X" | "O"\<close>. A square is \<^verbatim>\<open>null\<close> (empty) or a player's symbol;
  \<^verbatim>\<open>null\<close> is \<open>None\<close>. The comparisons \<^verbatim>\<open>==\<close> and \<^verbatim>\<open>!=\<close> of the source are only ever
  applied to squares, where they agree with equality on \<open>player option\<close>.
\<close>

datatype player = PlayerX | PlayerO

type_synonym square = "player option"

text \<open>
  \<^verbatim>\<open>type Board = [[Square, Square, Square], [Square, Square, Square], [Square, Square, Square]]\<close>:
  a tuple of three tuples, so \<^verbatim>\<open>board.length\<close> is 3 and every index the source uses
  (loop counters below \<^verbatim>\<open>board.length\<close>, the literals 0, 1, 2, the coordinates of
  \<^verbatim>\<open>getPosition\<close>) is within range.
\<close>

type_synonym 'a triple = "'a \<times> 'a \<times> 'a"

type_synonym board = "square triple triple"

fun elems :: "'a triple \<Rightarrow> 'a list" where
  "elems (a, b, c) = [a, b, c]"

fun at_index :: "'a triple \<Rightarrow> nat \<Rightarrow> 'a" where
  "at_index (a, b, c) i = (if i = 0 then a else if i = 1 then b else c)"

fun set_index :: "'a triple \<Rightarrow> nat \<Rightarrow> 'a \<Rightarrow> 'a triple" where
  "set_index (a, b, c) i v =
     (if i = 0 then (v, b, c) else if i = 1 then (a, v, c) else (a, b, v))"

text \<open>\<^verbatim>\<open>board[y][x]\<close> and the assignment \<^verbatim>\<open>board[y][x] = v\<close>.\<close>

definition cell :: "board \<Rightarrow> nat \<Rightarrow> nat \<Rightarrow> square" where
  "cell b y x = at_index (at_index b y) x"

definition set_cell :: "board \<Rightarrow> nat \<Rightarrow> nat \<Rightarrow> square \<Rightarrow> board" where
  "set_cell b y x v = set_index b y (set_index (at_index b y) x v)"

text \<open>
  A JavaScript number as \<^verbatim>\<open>parseInt\<close> produces it: \<^verbatim>\<open>NaN\<close> or an integer. The source
  casts the parsed number to \<^verbatim>\<open>Space\<close> without a check, so at run time a
  \<^verbatim>\<open>Space\<close> is such a number.
\<close>

datatype jsnum = NaN | Num int

text \<open>
  The four states. A state holds a reference to its board, not a copy: \<open>addr\<close> is the
  identity of a board object. \<^verbatim>\<open>won: Player | Draw\<close> is \<open>None\<close> for a draw
  (\<^verbatim>\<open>undefined\<close>).
\<close>

type_synonym addr = nat

datatype state =
    Initializing
  | Placing player addr
  | Evaluating addr player
  | Winner "player option" addr

section \<open>The store and the console\<close>

datatype event =
    Question string
  | ConsoleInfo string
  | ConsoleError string
  | ConsoleLog string

text \<open>
  \<open>boards\<close> maps the identity of a board object to its present contents. The rows of a
  board are reached only through the board and \<^verbatim>\<open>newBoard\<close> makes three new rows for
  each board, so a board and its rows are one cell of the store. A reference always
  leads to an object, hence the total function. \<open>fresh\<close> is the next unused identity,
  \<open>console\<close> what has been written so far, oldest first.
\<close>

record world =
  boards :: "addr \<Rightarrow> board"
  fresh :: addr
  console :: "event list"

definition emit :: "event \<Rightarrow> world \<Rightarrow> world" where
  "emit e w = w\<lparr>console := console w @ [e]\<rparr>"

definition emptyBoard :: board where
  "emptyBoard = ((None, None, None), (None, None, None), (None, None, None))"

definition newBoard :: "world \<Rightarrow> addr \<times> world" where
  "newBoard w =
     (fresh w, w\<lparr>boards := (boards w)(fresh w := emptyBoard), fresh := Suc (fresh w)\<rparr>)"

definition world0 :: world where
  "world0 = \<lparr>boards = (\<lambda>_. emptyBoard), fresh = 0, console = []\<rparr>"

section \<open>Win evaluator\<close>

text \<open>
  The loop \<^verbatim>\<open>for (let i = 0; i < board.length; i++)\<close> of \<^verbatim>\<open>hasWinnerHorizontal\<close>,
  from counter \<open>i\<close> on.
\<close>

function hasWinnerHorizontal_from :: "nat \<Rightarrow> board \<Rightarrow> player option" where
  "hasWinnerHorizontal_from i board =
     (if i < 3 then
        (let col1 = cell board i 0; col2 = cell board i 1; col3 = cell board i 2
         in if col1 = col2 \<and> col2 = col3 \<and> col1 \<noteq> None then col1
            else hasWinnerHorizontal_from (Suc i) board)
      else None)"
  by pat_completeness auto
termination
  by (relation "measure (\<lambda>(i, board). 3 - i)") auto

definition hasWinnerHorizontal :: "board \<Rightarrow> player option" where
  "hasWinnerHorizontal board = hasWinnerHorizontal_from 0 board"

function hasWinnerVertical_from :: "nat \<Rightarrow> board \<Rightarrow> player option" where
  "hasWinnerVertical_from i board =
     (if i < 3 then
        (let col1 = cell board 0 i; col2 = cell board 1 i; col3 = cell board 2 i
         in if col1 = col2 \<and> col2 = col3 \<and> col1 \<noteq> None then col1
            else hasWinnerVertical_from (Suc i) board)
      else None)"
  by pat_completeness auto
termination
  by (relation "measure (\<lambda>(i, board). 3 - i)") auto

definition hasWinnerVertical :: "board \<Rightarrow> player option" where
  "hasWinnerVertical board = hasWinnerVertical_from 0 board"

text \<open>
  Both tests of \<^verbatim>\<open>hasWinnerDiagonal\<close> guard on \<^verbatim>\<open>topL != null\<close>, the second one too,
  as the source has it.
\<close>

definition hasWinnerDiagonal :: "board \<Rightarrow> player option" where
  "hasWinnerDiagonal board =
     (let topL = cell board 0 0;
          topR = cell board 0 2;
          origin = cell board 1 1;
          botR = cell board 2 2;
          botL = cell board 2 0
      in if topL = origin \<and> origin = botR \<and> topL \<noteq> None then topL
         else if topR = origin \<and> origin = botL \<and> topL \<noteq> None then topR
         else None)"

text \<open>
  \<^verbatim>\<open>isBoardFull\<close>: the two nested \<^verbatim>\<open>forEach\<close> visit every square and clear the flag
  at each empty one.
\<close>

definition isBoardFull :: "board \<Rightarrow> bool" where
  "isBoardFull board =
     fold (\<lambda>row full. fold (\<lambda>col full. if col = None then False else full) (elems row) full)
       (elems board) True"

text \<open>
  \<^verbatim>\<open>evaluate(board, after)\<close> reads the board behind the reference and puts the same
  reference into the state it returns. A winner is truthy, \<^verbatim>\<open>null\<close> is falsy.
\<close>

definition evaluate :: "world \<Rightarrow> addr \<Rightarrow> player \<Rightarrow> state" where
  "evaluate w board after =
     (let vert = hasWinnerVertical (boards w board);
          hori = hasWinnerHorizontal (boards w board);
          diag = hasWinnerDiagonal (boards w board)
      in if vert \<noteq> None then Winner vert board
         else if hori \<noteq> None then Winner hori board
         else if diag \<noteq> None then Winner diag board
         else if isBoardFull (boards w board) then Winner None board
         else Placing (if after = PlayerX then PlayerO else PlayerX) board)"

section \<open>Spaces and board update\<close>

text \<open>
  \<^verbatim>\<open>getPosition\<close>: the pair is (y, x), row first. The \<^verbatim>\<open>switch\<close> compares with
  \<^verbatim>\<open>===\<close>; a value that matches no case falls out of the function, which then returns
  \<^verbatim>\<open>undefined\<close> (\<open>None\<close>).
\<close>

fun getPosition :: "jsnum \<Rightarrow> (nat \<times> nat) option" where
  "getPosition (Num n) =
     (if n = 1 then Some (0, 0)
      else if n = 2 then Some (0, 1)
      else if n = 3 then Some (0, 2)
      else if n = 4 then Some (1, 0)
      else if n = 5 then Some (1, 1)
      else if n = 6 then Some (1, 2)
      else if n = 7 then Some (2, 0)
      else if n = 8 then Some (2, 1)
      else if n = 9 then Some (2, 2)
      else None)"
| "getPosition NaN = None"

text \<open>Reading \<^verbatim>\<open>point.y\<close> of \<^verbatim>\<open>undefined\<close> throws a \<^verbatim>\<open>TypeError\<close>.\<close>

datatype exn = TypeError

definition isEmpty :: "board \<Rightarrow> jsnum \<Rightarrow> exn + bool" where
  "isEmpty board at =
     (case getPosition at of
        None \<Rightarrow> Inl TypeError
      | Some (y, x) \<Rightarrow> Inr (cell board y x = None))"

text \<open>
  The union \<^verbatim>\<open>Board | { error: string }\<close> that \<^verbatim>\<open>updateBoard\<close> returns; the caller
  tells the two apart by \<^verbatim>\<open>"error" in update\<close>.
\<close>

datatype update = Updated addr | Rejected string

text \<open>A number inside a template literal. Only 1 to 9 ever get here.\<close>

function show_nat :: "nat \<Rightarrow> string" where
  "show_nat n =
     (if n < 10 then [''0123456789'' ! n]
      else show_nat (n div 10) @ [''0123456789'' ! (n mod 10)])"
  by pat_completeness auto
termination
  by (relation "measure id") auto

fun show_num :: "jsnum \<Rightarrow> string" where
  "show_num NaN = ''NaN''"
| "show_num (Num n) = (if n < 0 then ''-'' @ show_nat (nat (- n)) else show_nat (nat n))"

fun show_player :: "player \<Rightarrow> string" where
  "show_player PlayerX = ''X''"
| "show_player PlayerO = ''O''"

text \<open>
  \<^verbatim>\<open>updateBoard\<close>: \<^verbatim>\<open>const updated = on\<close> copies the reference, not the board, so the
  assignment to \<^verbatim>\<open>updated[point.y][point.x]\<close> writes into the board object that
  \<^verbatim>\<open>on\<close> names, and the reference returned is \<^verbatim>\<open>on\<close> itself.
\<close>

definition occupied_message :: "jsnum \<Rightarrow> string" where
  "occupied_message at =
     ''Can't update non-empty space, '' @ show_num at @ '' is already occupied.''"

definition updateBoard :: "player \<Rightarrow> jsnum \<Rightarrow> addr \<Rightarrow> world \<Rightarrow> exn + (update \<times> world)" where
  "updateBoard symbol at on w =
     (case isEmpty (boards w on) at of
        Inl e \<Rightarrow> Inl e
      | Inr vacant \<Rightarrow>
          if \<not> vacant then
            Inr (Rejected (occupied_message at), w)
          else
            (case getPosition at of
               None \<Rightarrow> Inl TypeError
             | Some (y, x) \<Rightarrow>
                 (let updated = on
                  in Inr (Updated updated,
                          w\<lparr>boards := (boards w)
                               (updated := set_cell (boards w updated) y x (Some symbol))\<rparr>))))"

section \<open>Presentation\<close>

text \<open>
  \<^verbatim>\<open>printBoard\<close>: the flattened board, each empty square replaced by its space
  number, laid out in three lines and written with \<^verbatim>\<open>console.info\<close>.
\<close>

definition spacesNumbered :: "board \<Rightarrow> string list" where
  "spacesNumbered board =
     map (\<lambda>(space, index). case space of None \<Rightarrow> show_nat (index + 1) | Some p \<Rightarrow> show_player p)
       (zip (concat (map elems (elems board))) [0 ..< 9])"

definition displayBoard :: "board \<Rightarrow> string" where
  "displayBoard board =
     (let s = spacesNumbered board
      in s ! 0 @ '' | '' @ s ! 1 @ '' | '' @ s ! 2 @ '' '' @ [CHR 0x0A]
         @ ''---------'' @ [CHR 0x0A]
         @ s ! 3 @ '' | '' @ s ! 4 @ '' | '' @ s ! 5 @ '' '' @ [CHR 0x0A]
         @ ''---------'' @ [CHR 0x0A]
         @ s ! 6 @ '' | '' @ s ! 7 @ '' | '' @ s ! 8 @ '' '' @ [CHR 0x0A])"

definition printBoard :: "addr \<Rightarrow> world \<Rightarrow> world" where
  "printBoard board w = emit (ConsoleInfo (displayBoard (boards w board))) w"

section \<open>Input\<close>

text \<open>
  \<^verbatim>\<open>parseInt(input)\<close> with no radix, after ECMAScript: leading white space is skipped,
  one sign is read, a prefix \<^verbatim>\<open>0x\<close> or \<^verbatim>\<open>0X\<close> selects radix 16, then the longest run of
  digits is read; no digit at all gives \<^verbatim>\<open>NaN\<close>. Characters are bytes here, so the
  white space recognised is the ASCII part. The value is kept exact; the
  source only compares it with 1 and 9, where the rounding of a long digit string to a
  double changes nothing.
\<close>

definition isWhiteSpace :: "char \<Rightarrow> bool" where
  "isWhiteSpace c = (c \<in> set [CHR 0x09, CHR 0x0A, CHR 0x0B, CHR 0x0C, CHR 0x0D, CHR 0x20])"

definition digitValue :: "char \<Rightarrow> nat option" where
  "digitValue c =
     (let n = of_char c :: nat
      in if 48 \<le> n \<and> n \<le> 57 then Some (n - 48)
         else if 97 \<le> n \<and> n \<le> 122 then Some (n - 87)
         else if 65 \<le> n \<and> n \<le> 90 then Some (n - 55)
         else None)"

definition isDigit :: "nat \<Rightarrow> char \<Rightarrow> bool" where
  "isDigit radix c = (case digitValue c of None \<Rightarrow> False | Some d \<Rightarrow> d < radix)"

definition parseInt :: "string \<Rightarrow> jsnum" where
  "parseInt input =
     (let s = dropWhile isWhiteSpace input;
          negative = (take 1 s = ''-'');
          s = (if take 1 s = ''-'' \<or> take 1 s = ''+'' then drop 1 s else s);
          hex = (take 2 s = ''0x'' \<or> take 2 s = ''0X'');
          radix = (if hex then 16 else 10);
          s = (if hex then drop 2 s else s);
          z = takeWhile (isDigit radix) s;
          v = foldl (\<lambda>acc c. acc * int radix + int (the (digitValue c))) 0 z
      in if z = [] then NaN else Num (if negative then - v else v))"

text \<open>
  The comparisons \<^verbatim>\<open>parsed < 1\<close> and \<^verbatim>\<open>parsed > 9\<close>: both are false for \<^verbatim>\<open>NaN\<close>.
\<close>

fun js_less :: "jsnum \<Rightarrow> jsnum \<Rightarrow> bool" where
  "js_less (Num a) (Num b) = (a < b)"
| "js_less _ _ = False"

text \<open>
  The callback that \<^verbatim>\<open>getSelection\<close> passes to \<^verbatim>\<open>rl.question\<close>, run on one line of
  input. \<open>Some n\<close>: the promise was resolved with \<open>n\<close>. \<open>None\<close>: the callback came to
  its end without calling \<^verbatim>\<open>resolve\<close>: for an empty line nothing at all happens, and
  for a number out of range the \<^verbatim>\<open>Error\<close> thrown is caught on the spot and the message
  printed.
\<close>

definition range_message :: string where
  "range_message = ''Selection must be an integer in range 1 - 9''"

definition answer :: "string \<Rightarrow> world \<Rightarrow> jsnum option \<times> world" where
  "answer input w =
     (if input \<noteq> [] then
        (let parsed = parseInt input
         in if js_less parsed (Num 1) \<or> js_less (Num 9) parsed
            then (None, emit (ConsoleError range_message) w)
            else (Some parsed, w))
      else (None, w))"

text \<open>
  \<^verbatim>\<open>getSelection(player)\<close> asks one question. The lines the player will type are a
  list; \<^verbatim>\<open>rl.question\<close> hands the first of them to the callback. The promise is
  \<open>Resolved\<close> with a number (and the lines left), or \<open>Unsettled\<close> for good because the
  callback has run and did not resolve it, or \<open>NoInput\<close>: the question is pending and
  no line has come.
\<close>

definition prompt :: "player \<Rightarrow> string" where
  "prompt player = ''Player '' @ show_player player @ '' select your space, enter the number: ''"

datatype selection = Resolved jsnum "string list" | Unsettled "string list" | NoInput

definition getSelection :: "player \<Rightarrow> string list \<Rightarrow> world \<Rightarrow> selection \<times> world" where
  "getSelection player lines w =
     (let w1 = emit (Question (prompt player)) w
      in case lines of
           [] \<Rightarrow> (NoInput, w1)
         | input # rest \<Rightarrow>
             (case answer input w1 of
                (Some n, w2) \<Rightarrow> (Resolved n rest, w2)
              | (None, w2) \<Rightarrow> (Unsettled rest, w2)))"

section \<open>Transition engine\<close>

text \<open>
  What one call of \<^verbatim>\<open>transition\<close> comes to, with \<^verbatim>\<open>this.state\<close>, the world and the
  lines not yet read at that moment:
  \<^item> \<open>Returned\<close>: the call returned (its promise resolved);
  \<^item> \<open>AwaitingInput\<close>: a question is pending and the lines have run out;
  \<^item> \<open>Stalled\<close>: the call awaits a promise of \<^verbatim>\<open>getSelection\<close> that nothing will
    ever settle, so it never returns, whatever is typed afterwards;
  \<^item> \<open>Threw\<close>: an exception left the call;
  \<^item> \<open>Exited\<close>: \<^verbatim>\<open>process.exit\<close> with the given status.
\<close>

datatype outcome =
    Returned state world "string list"
  | AwaitingInput state world
  | Stalled state world "string list"
  | Threw exn state world "string list"
  | Exited int world

text \<open>
  The loop \<^verbatim>\<open>while (!selectionValid)\<close> of the placing branch. It goes round again
  only after \<^verbatim>\<open>updateBoard\<close> has refused a selection, and each round reads one line.
\<close>

function placing :: "player \<Rightarrow> addr \<Rightarrow> string list \<Rightarrow> world \<Rightarrow> outcome" where
  "placing player on lines w =
     (case getSelection player lines w of
        (NoInput, w1) \<Rightarrow> AwaitingInput (Placing player on) w1
      | (Unsettled rest, w1) \<Rightarrow> Stalled (Placing player on) w1 rest
      | (Resolved at rest, w1) \<Rightarrow>
          (case updateBoard player at on w1 of
             Inl e \<Rightarrow> Threw e (Placing player on) w1 rest
           | Inr (Rejected error, w2) \<Rightarrow> placing player on rest (emit (ConsoleError error) w2)
           | Inr (Updated update, w2) \<Rightarrow> Returned (Evaluating update player) w2 rest))"
  by pat_completeness auto
termination
  by (relation "measure (\<lambda>(player, on, lines, w). length lines)")
     (auto simp: getSelection_def Let_def split: list.splits option.splits prod.splits)

definition terminate :: "player option \<Rightarrow> addr \<Rightarrow> world \<Rightarrow> outcome" where
  "terminate winner on w =
     (let w1 = printBoard on w
      in case winner of
           Some p \<Rightarrow>
             if p = PlayerX
             then Exited 0 (emit (ConsoleLog ([CHR 0x0A] @ ''Player 1 wins!'' @ [CHR 0x0A])) w1)
             else Exited 0 (emit (ConsoleLog ([CHR 0x0A] @ ''Player 2 wins!'' @ [CHR 0x0A])) w1)
         | None \<Rightarrow> Exited 0 (emit (ConsoleLog ''Draw! Nobody wins'') w1))"

text \<open>
  \<^verbatim>\<open>transition\<close>: four \<^verbatim>\<open>if\<close> statements in a row, not an \<^verbatim>\<open>else if\<close> chain. The
  first assigns \<^verbatim>\<open>this.state\<close> and does not return, so the second tests the state
  just assigned. The placing branch leaves only by \<^verbatim>\<open>return\<close> (or not at all), the
  evaluating branch returns, the winner branch exits the process.
\<close>

definition transition :: "state \<Rightarrow> string list \<Rightarrow> world \<Rightarrow> outcome" where
  "transition st lines w =
     (let (st1, w1) =
            (case st of
               Initializing \<Rightarrow> (case newBoard w of (b, w') \<Rightarrow> (Placing PlayerX b, w'))
             | _ \<Rightarrow> (st, w))
      in case st1 of
           Placing player on \<Rightarrow> placing player on lines (printBoard on w1)
         | Evaluating board after \<Rightarrow> Returned (evaluate w1 board after) w1 lines
         | Winner won on \<Rightarrow> terminate won on w1
         | Initializing \<Rightarrow> Returned st1 w1 lines)"

section \<open>The specification's vocabulary\<close>

text \<open>
  The specification speaks of lines and of claimed cells. These definitions follow its
  words, not the code: a line is a row, a column, the main diagonal (0,0)-(1,1)-(2,2)
  or the anti-diagonal (0,2)-(1,1)-(2,0); it is completed by a symbol when its three
  cells hold that symbol.
\<close>

definition all_lines :: "board \<Rightarrow> square triple list" where
  "all_lines b =
     [(cell b 0 0, cell b 0 1, cell b 0 2),
      (cell b 1 0, cell b 1 1, cell b 1 2),
      (cell b 2 0, cell b 2 1, cell b 2 2),
      (cell b 0 0, cell b 1 0, cell b 2 0),
      (cell b 0 1, cell b 1 1, cell b 2 1),
      (cell b 0 2, cell b 1 2, cell b 2 2),
      (cell b 0 0, cell b 1 1, cell b 2 2),
      (cell b 0 2, cell b 1 1, cell b 2 0)]"

definition completed_by :: "player \<Rightarrow> board \<Rightarrow> bool" where
  "completed_by s b = ((Some s, Some s, Some s) \<in> set (all_lines b))"

definition completed_line :: "board \<Rightarrow> bool" where
  "completed_line b = (completed_by PlayerX b \<or> completed_by PlayerO b)"

definition claimed_cells :: "board \<Rightarrow> nat" where
  "claimed_cells b = length (filter (\<lambda>c. c \<noteq> None) (concat (map elems (elems b))))"

definition opponent :: "player \<Rightarrow> player" where
  "opponent p = (case p of PlayerX \<Rightarrow> PlayerO | PlayerO \<Rightarrow> PlayerX)"

section \<open>Unrolling the scans\<close>

declare hasWinnerVertical_from.simps [simp del]

declare hasWinnerHorizontal_from.simps [simp del]

declare placing.simps [simp del]

lemma board_cases:
  obtains a b c d e f g h i where "(bd :: board) = ((a, b, c), (d, e, f), (g, h, i))"
  by (cases bd) auto

lemma cell_simps:
  "cell ((a, b, c), (d, e, f), (g, h, i)) 0 0 = a"
  "cell ((a, b, c), (d, e, f), (g, h, i)) 0 1 = b"
  "cell ((a, b, c), (d, e, f), (g, h, i)) 0 2 = c"
  "cell ((a, b, c), (d, e, f), (g, h, i)) 1 0 = d"
  "cell ((a, b, c), (d, e, f), (g, h, i)) 1 1 = e"
  "cell ((a, b, c), (d, e, f), (g, h, i)) 1 2 = f"
  "cell ((a, b, c), (d, e, f), (g, h, i)) 2 0 = g"
  "cell ((a, b, c), (d, e, f), (g, h, i)) 2 1 = h"
  "cell ((a, b, c), (d, e, f), (g, h, i)) 2 2 = i"
  by (simp_all add: cell_def)

lemma hasWinnerVertical_unfold:
  "hasWinnerVertical bd =
     (if cell bd 0 0 = cell bd 1 0 \<and> cell bd 1 0 = cell bd 2 0 \<and> cell bd 0 0 \<noteq> None
      then cell bd 0 0
      else if cell bd 0 1 = cell bd 1 1 \<and> cell bd 1 1 = cell bd 2 1 \<and> cell bd 0 1 \<noteq> None
      then cell bd 0 1
      else if cell bd 0 2 = cell bd 1 2 \<and> cell bd 1 2 = cell bd 2 2 \<and> cell bd 0 2 \<noteq> None
      then cell bd 0 2
      else None)"
proof -
  have stop: "hasWinnerVertical_from 3 bd = None"
    by (subst hasWinnerVertical_from.simps) simp
  have step: "hasWinnerVertical_from i bd =
      (if cell bd 0 i = cell bd 1 i \<and> cell bd 1 i = cell bd 2 i \<and> cell bd 0 i \<noteq> None
       then cell bd 0 i else hasWinnerVertical_from (Suc i) bd)" if "i < 3" for i
    using that by (subst hasWinnerVertical_from.simps) (simp add: Let_def)
  have lt: "(0::nat) < 3" "(1::nat) < 3" "(2::nat) < 3"
    by simp_all
  have n: "Suc 0 = 1" "Suc 1 = 2" "Suc 2 = 3"
    by simp_all
  show ?thesis
    unfolding hasWinnerVertical_def step [OF lt(1)] step [OF lt(2)] step [OF lt(3)] n stop
    by (rule refl)
qed

lemma hasWinnerHorizontal_unfold:
  "hasWinnerHorizontal bd =
     (if cell bd 0 0 = cell bd 0 1 \<and> cell bd 0 1 = cell bd 0 2 \<and> cell bd 0 0 \<noteq> None
      then cell bd 0 0
      else if cell bd 1 0 = cell bd 1 1 \<and> cell bd 1 1 = cell bd 1 2 \<and> cell bd 1 0 \<noteq> None
      then cell bd 1 0
      else if cell bd 2 0 = cell bd 2 1 \<and> cell bd 2 1 = cell bd 2 2 \<and> cell bd 2 0 \<noteq> None
      then cell bd 2 0
      else None)"
proof -
  have stop: "hasWinnerHorizontal_from 3 bd = None"
    by (subst hasWinnerHorizontal_from.simps) simp
  have step: "hasWinnerHorizontal_from i bd =
      (if cell bd i 0 = cell bd i 1 \<and> cell bd i 1 = cell bd i 2 \<and> cell bd i 0 \<noteq> None
       then cell bd i 0 else hasWinnerHorizontal_from (Suc i) bd)" if "i < 3" for i
    using that by (subst hasWinnerHorizontal_from.simps) (simp add: Let_def)
  have lt: "(0::nat) < 3" "(1::nat) < 3" "(2::nat) < 3"
    by simp_all
  have n: "Suc 0 = 1" "Suc 1 = 2" "Suc 2 = 3"
    by simp_all
  show ?thesis
    unfolding hasWinnerHorizontal_def step [OF lt(1)] step [OF lt(2)] step [OF lt(3)] n stop
    by (rule refl)
qed

lemma isBoardFull_tuple:
  "isBoardFull ((a, b, c), (d, e, f), (g, h, i)) =
     (a \<noteq> None \<and> b \<noteq> None \<and> c \<noteq> None \<and> d \<noteq> None \<and> e \<noteq> None \<and> f \<noteq> None
      \<and> g \<noteq> None \<and> h \<noteq> None \<and> i \<noteq> None)"
  by (simp add: isBoardFull_def)

lemma filter_all_length: "(length (filter P xs) = length xs) = list_all P xs"
proof (induction xs)
  case Nil
  show ?case by simp
next
  case (Cons a xs)
  have "length (filter P xs) < Suc (length xs)"
    by (simp add: less_Suc_eq_le)
  then have "length (filter P xs) \<noteq> Suc (length xs)"
    by (rule less_imp_neq)
  with Cons show ?case by simp
qed

lemma claimed_cells_tuple:
  "(claimed_cells ((a, b, c), (d, e, f), (g, h, i)) = 9) =
     (a \<noteq> None \<and> b \<noteq> None \<and> c \<noteq> None \<and> d \<noteq> None \<and> e \<noteq> None \<and> f \<noteq> None
      \<and> g \<noteq> None \<and> h \<noteq> None \<and> i \<noteq> None)"
proof -
  let ?xs = "[a, b, c, d, e, f, g, h, i]"
  have "claimed_cells ((a, b, c), (d, e, f), (g, h, i)) = length (filter (\<lambda>c. c \<noteq> None) ?xs)"
    by (simp add: claimed_cells_def)
  moreover have "length ?xs = 9" by simp
  ultimately have "(claimed_cells ((a, b, c), (d, e, f), (g, h, i)) = 9)
      = (length (filter (\<lambda>c. c \<noteq> None) ?xs) = length ?xs)"
    by simp
  also have "\<dots> = list_all (\<lambda>c. c \<noteq> None) ?xs"
    by (rule filter_all_length)
  finally show ?thesis by simp
qed

lemma isBoardFull_claimed: "isBoardFull bd = (claimed_cells bd = 9)"
proof -
  obtain a b c d e f g h i where "bd = ((a, b, c), (d, e, f), (g, h, i))"
    by (rule board_cases)
  then show ?thesis
    by (simp only: isBoardFull_tuple claimed_cells_tuple)
qed

lemma completed_by_tuple:
  "completed_by s ((a, b, c), (d, e, f), (g, h, i)) =
     ((a = Some s \<and> b = Some s \<and> c = Some s) \<or> (d = Some s \<and> e = Some s \<and> f = Some s)
      \<or> (g = Some s \<and> h = Some s \<and> i = Some s) \<or> (a = Some s \<and> d = Some s \<and> g = Some s)
      \<or> (b = Some s \<and> e = Some s \<and> h = Some s) \<or> (c = Some s \<and> f = Some s \<and> i = Some s)
      \<or> (a = Some s \<and> e = Some s \<and> i = Some s) \<or> (c = Some s \<and> e = Some s \<and> g = Some s))"
  unfolding completed_by_def all_lines_def cell_simps by auto

section \<open>The scans report completed lines only\<close>

lemma vertical_sound: "hasWinnerVertical bd = Some s \<Longrightarrow> completed_by s bd"
proof -
  assume r: "hasWinnerVertical bd = Some s"
  obtain a b c d e f g h i where bd: "bd = ((a, b, c), (d, e, f), (g, h, i))"
    by (rule board_cases)
  from r show ?thesis
    unfolding bd completed_by_tuple hasWinnerVertical_unfold cell_simps
    by (auto split: if_splits)
qed

lemma horizontal_sound: "hasWinnerHorizontal bd = Some s \<Longrightarrow> completed_by s bd"
proof -
  assume r: "hasWinnerHorizontal bd = Some s"
  obtain a b c d e f g h i where bd: "bd = ((a, b, c), (d, e, f), (g, h, i))"
    by (rule board_cases)
  from r show ?thesis
    unfolding bd completed_by_tuple hasWinnerHorizontal_unfold cell_simps
    by (auto split: if_splits)
qed

lemma diagonal_sound: "hasWinnerDiagonal bd = Some s \<Longrightarrow> completed_by s bd"
proof -
  assume r: "hasWinnerDiagonal bd = Some s"
  obtain a b c d e f g h i where bd: "bd = ((a, b, c), (d, e, f), (g, h, i))"
    by (rule board_cases)
  from r show ?thesis
    unfolding bd completed_by_tuple hasWinnerDiagonal_def Let_def cell_simps
    by (auto split: if_splits)
qed

lemma no_line_no_winner:
  assumes "\<not> completed_line bd"
  shows "hasWinnerVertical bd = None" and "hasWinnerHorizontal bd = None"
    and "hasWinnerDiagonal bd = None"
proof -
  have no: "\<not> completed_by s bd" for s
    using assms by (cases s) (simp_all add: completed_line_def)
  show "hasWinnerVertical bd = None"
    using no vertical_sound [of bd] by (cases "hasWinnerVertical bd") blast+
  show "hasWinnerHorizontal bd = None"
    using no horizontal_sound [of bd] by (cases "hasWinnerHorizontal bd") blast+
  show "hasWinnerDiagonal bd = None"
    using no diagonal_sound [of bd] by (cases "hasWinnerDiagonal bd") blast+
qed

lemma evaluate_unfold:
  "evaluate w board after =
     (case hasWinnerVertical (boards w board) of
        Some s \<Rightarrow> Winner (Some s) board
      | None \<Rightarrow>
          (case hasWinnerHorizontal (boards w board) of
             Some s \<Rightarrow> Winner (Some s) board
           | None \<Rightarrow>
               (case hasWinnerDiagonal (boards w board) of
                  Some s \<Rightarrow> Winner (Some s) board
                | None \<Rightarrow>
                    if claimed_cells (boards w board) = 9 then Winner None board
                    else Placing (opponent after) board)))"
  by (cases after) (simp_all add: evaluate_def Let_def isBoardFull_claimed opponent_def split: option.splits)

section \<open>The store, the callback and the loop\<close>

lemma emit_fields [simp]:
  "boards (emit e w) = boards w" "fresh (emit e w) = fresh w"
  "console (emit e w) = console w @ [e]"
  by (simp_all add: emit_def)

lemma printBoard_fields [simp]:
  "boards (printBoard on w) = boards w" "fresh (printBoard on w) = fresh w"
  by (simp_all add: printBoard_def)

lemma newBoard_fields:
  "fst (newBoard w) = fresh w"
  "boards (snd (newBoard w)) = (boards w)(fresh w := emptyBoard)"
  by (simp_all add: newBoard_def)

lemma parseInt_Nil: "parseInt [] = NaN"
  by (simp add: parseInt_def)

lemma parseInt_examples:
  "parseInt ''0'' = Num 0" "parseInt ''10'' = Num 10" "parseInt ''5'' = Num 5"
  by code_simp+

lemma getPosition_Some_range:
  assumes "getPosition at = Some (y, x)"
  obtains n where "at = Num n" and "1 \<le> n" and "n \<le> 9"
  using assms by (cases at) (auto split: if_splits)

lemma set_cell_same:
  assumes "getPosition at = Some (y, x)"
  shows "cell (set_cell bd y x v) y x = v"
proof -
  obtain a b c d e f g h i where bd: "bd = ((a, b, c), (d, e, f), (g, h, i))"
    by (rule board_cases)
  from assms obtain n where "at = Num n" by (rule getPosition_Some_range)
  with assms show ?thesis
    unfolding bd by (auto simp: cell_def set_cell_def split: if_splits)
qed

lemma set_cell_other:
  assumes "getPosition at = Some (y, x)" and "getPosition at' = Some (y', x')" and "at' \<noteq> at"
  shows "cell (set_cell bd y x v) y' x' = cell bd y' x'"
proof -
  obtain a b c d e f g h i where bd: "bd = ((a, b, c), (d, e, f), (g, h, i))"
    by (rule board_cases)
  from assms(1) obtain n where n: "at = Num n" by (rule getPosition_Some_range)
  from assms(2) obtain n' where n': "at' = Num n'" by (rule getPosition_Some_range)
  from assms show ?thesis
    unfolding bd n n' by (auto simp: cell_def set_cell_def split: if_splits)
qed

lemma answer_in_range:
  assumes "getPosition (parseInt input) = Some (y, x)"
  shows "answer input w = (Some (parseInt input), w)"
proof -
  from assms obtain n where n: "parseInt input = Num n" "1 \<le> n" "n \<le> 9"
    by (rule getPosition_Some_range)
  then have "input \<noteq> []"
    using parseInt_Nil by auto
  with n show ?thesis
    by (simp add: answer_def)
qed

lemma answer_out_of_range:
  assumes "parseInt input = Num n" and "n < 1 \<or> 9 < n"
  shows "answer input w = (None, emit (ConsoleError range_message) w)"
proof -
  from assms have "input \<noteq> []"
    using parseInt_Nil by auto
  with assms show ?thesis
    by (auto simp: answer_def)
qed

lemma updateBoard_occupied:
  assumes "getPosition at = Some (y, x)" and "cell (boards w on) y x \<noteq> None"
  shows "updateBoard symbol at on w = Inr (Rejected (occupied_message at), w)"
  using assms by (simp add: updateBoard_def isEmpty_def)

lemma updateBoard_vacant:
  assumes "getPosition at = Some (y, x)" and "cell (boards w on) y x = None"
  shows "updateBoard symbol at on w =
    Inr (Updated on, w\<lparr>boards := (boards w)(on := set_cell (boards w on) y x (Some symbol))\<rparr>)"
  using assms by (simp add: updateBoard_def isEmpty_def)

lemma placing_Nil:
  "placing player on [] w = AwaitingInput (Placing player on) (emit (Question (prompt player)) w)"
  by (subst placing.simps) (simp add: getSelection_def)

lemma placing_occupied:
  assumes "getPosition (parseInt input) = Some (y, x)" and "cell (boards w on) y x \<noteq> None"
  shows "placing player on (input # rest) w =
    placing player on rest
      (emit (ConsoleError (occupied_message (parseInt input))) (emit (Question (prompt player)) w))"
proof -
  let ?w1 = "emit (Question (prompt player)) w"
  have "getSelection player (input # rest) w = (Resolved (parseInt input) rest, ?w1)"
    by (simp add: getSelection_def answer_in_range [OF assms(1)])
  moreover have "updateBoard player (parseInt input) on ?w1
      = Inr (Rejected (occupied_message (parseInt input)), ?w1)"
    using assms by (intro updateBoard_occupied) simp_all
  ultimately show ?thesis
    by (subst placing.simps) simp
qed

lemma placing_out_of_range:
  assumes "parseInt input = Num n" and "n < 1 \<or> 9 < n"
  shows "placing player on (input # rest) w =
    Stalled (Placing player on)
      (emit (ConsoleError range_message) (emit (Question (prompt player)) w)) rest"
proof -
  have "getSelection player (input # rest) w
      = (Unsettled rest, emit (ConsoleError range_message) (emit (Question (prompt player)) w))"
    by (simp add: getSelection_def answer_out_of_range [OF assms])
  then show ?thesis
    by (subst placing.simps) simp
qed

lemma placing_vacant:
  assumes "getPosition (parseInt input) = Some (y, x)" and "cell (boards w on) y x = None"
  shows "placing player on (input # rest) w =
    Returned (Evaluating on player)
      ((emit (Question (prompt player)) w)
         \<lparr>boards := (boards w)(on := set_cell (boards w on) y x (Some player))\<rparr>) rest"
proof -
  let ?w1 = "emit (Question (prompt player)) w"
  have "getSelection player (input # rest) w = (Resolved (parseInt input) rest, ?w1)"
    by (simp add: getSelection_def answer_in_range [OF assms(1)])
  moreover have "updateBoard player (parseInt input) on ?w1
      = Inr (Updated on, ?w1\<lparr>boards := (boards ?w1)(on := set_cell (boards ?w1 on) y x (Some player))\<rparr>)"
    using assms by (intro updateBoard_vacant) simp_all
  ultimately show ?thesis
    by (subst placing.simps) simp
qed

lemma placing_not_Placing: "placing player on lines w \<noteq> Returned (Placing p b) w' ls"
proof (induction player on lines w rule: placing.induct)
  case (1 player on lines w)
  then show ?case
    by (subst placing.simps)
       (auto split: prod.splits selection.splits sum.splits update.splits)
qed

lemma transition_Placing:
  "transition (Placing player on) lines w = placing player on lines (printBoard on w)"
  by (simp add: transition_def)

lemma transition_Initializing:
  "transition Initializing lines w =
     placing PlayerX (fresh w) lines (printBoard (fresh w) (snd (newBoard w)))"
  by (simp add: transition_def newBoard_def)

section \<open>The properties of the specification, one by one\<close>

text \<open>
  C1. A board with a completed line of one symbol is reported as a win for that symbol,
  whatever the other cells hold; in particular an anti-diagonal held by one symbol wins
  even when cell (0,0) is empty. The code does not do that: the second test of
  \<^verbatim>\<open>hasWinnerDiagonal\<close> guards on the top left cell instead of the top right one. On
  the board with X on the anti-diagonal and nothing else, the line is completed by X,
  the diagonal scan reports no winner and \<^verbatim>\<open>evaluate\<close> hands the turn to O.
\<close>

theorem anti_diagonal_missed:
  "completed_by PlayerX
     ((None, None, Some PlayerX), (None, Some PlayerX, None), (Some PlayerX, None, None))
   \<and> hasWinnerDiagonal
       ((None, None, Some PlayerX), (None, Some PlayerX, None), (Some PlayerX, None, None)) = None
   \<and> evaluate
       (world0\<lparr>boards := \<lambda>_. ((None, None, Some PlayerX), (None, Some PlayerX, None),
                               (Some PlayerX, None, None))\<rparr>) 0 PlayerX
     = Placing PlayerO 0"
  by (simp add: completed_by_tuple evaluate_unfold hasWinnerVertical_unfold
      hasWinnerHorizontal_unfold hasWinnerDiagonal_def cell_def claimed_cells_def opponent_def)

text \<open>
  C2. A call of \<^verbatim>\<open>transition\<close> in state Initializing yields exactly Placing(X, empty
  board), reads no input and makes this one transition only. The code goes on into the
  placing branch within the same call: with the line \<^verbatim>\<open>5\<close> waiting, the call reads it
  and returns in state Evaluating with X on the centre of the new board, and for no
  input at all does the call return in a Placing state.
\<close>

theorem initializing_runs_placing_step:
  "(\<exists>w'. transition Initializing (''5'' # rest) w = Returned (Evaluating (fresh w) PlayerX) w' rest
        \<and> boards w' = (boards w)(fresh w := set_cell emptyBoard 1 1 (Some PlayerX)))
   \<and> (\<forall>lines p b w' ls. transition Initializing lines w \<noteq> Returned (Placing p b) w' ls)"
proof -
  let ?w = "printBoard (fresh w) (snd (newBoard w))"
  have "getPosition (parseInt ''5'') = Some (1, 1)"
    by (simp add: parseInt_examples)
  moreover have "cell (boards ?w (fresh w)) 1 1 = None"
    by (simp add: newBoard_fields emptyBoard_def cell_def)
  ultimately have "placing PlayerX (fresh w) (''5'' # rest) ?w =
    Returned (Evaluating (fresh w) PlayerX)
      ((emit (Question (prompt PlayerX)) ?w)
         \<lparr>boards := (boards ?w)(fresh w := set_cell (boards ?w (fresh w)) 1 1 (Some PlayerX))\<rparr>) rest"
    by (rule placing_vacant)
  then show ?thesis
    by (simp add: transition_Initializing placing_not_Placing newBoard_fields)
qed

text \<open>
  C3. A request outside 1 to 9 during Placing is reported and followed by another
  request, with state and board unchanged. The code reports it and leaves state and
  board alone, but asks nothing more: the promise of \<^verbatim>\<open>getSelection\<close> is never
  settled, so the call of \<^verbatim>\<open>transition\<close> stalls after the one question and the error
  message, and the lines that follow (\<open>rest\<close>) are never read. Shown for the lines
  \<^verbatim>\<open>0\<close> and \<^verbatim>\<open>10\<close>.
\<close>

theorem out_of_range_never_retried:
  "transition (Placing player on) (''0'' # rest) w =
     Stalled (Placing player on)
       (emit (ConsoleError range_message) (emit (Question (prompt player)) (printBoard on w))) rest
   \<and> transition (Placing player on) (''10'' # rest) w =
     Stalled (Placing player on)
       (emit (ConsoleError range_message) (emit (Question (prompt player)) (printBoard on w))) rest"
  by (simp add: transition_Placing placing_out_of_range [OF parseInt_examples(1)]
      placing_out_of_range [OF parseInt_examples(2)])

text \<open>
  C4, as stated: after a successful \<^verbatim>\<open>updateBoard\<close> the board the caller still holds
  is unaffected, its cell at S still empty. It fails on the empty board at space 5: the
  reference returned is the caller's own, and the caller's board now has the cell
  claimed.
\<close>

theorem updateBoard_prior_board_counterexample:
  "isEmpty (boards world0 0) (Num 5) = Inr True
   \<and> \<not> isl (updateBoard PlayerX (Num 5) 0 world0)
   \<and> fst (projr (updateBoard PlayerX (Num 5) 0 world0)) = Updated 0
   \<and> isEmpty (boards (snd (projr (updateBoard PlayerX (Num 5) 0 world0))) 0) (Num 5) = Inr False"
  by (simp add: updateBoard_def isEmpty_def world0_def emptyBoard_def cell_def set_cell_def)

text \<open>
  C4, amended: for every board and every empty space S, \<^verbatim>\<open>updateBoard\<close> returns the
  very board object it was given, updated in place: seen through the caller's
  reference, the cell at S's position now holds the mover's symbol and the cell of every
  other space is as before. Every other board object, and the console, are untouched.
\<close>

theorem updateBoard_in_place:
  assumes "getPosition at = Some (y, x)" and "cell (boards w on) y x = None"
  shows "\<exists>w'. updateBoard symbol at on w = Inr (Updated on, w')
    \<and> cell (boards w' on) y x = Some symbol
    \<and> (\<forall>at' y' x'. getPosition at' = Some (y', x') \<longrightarrow> at' \<noteq> at
          \<longrightarrow> cell (boards w' on) y' x' = cell (boards w on) y' x')
    \<and> (\<forall>other. other \<noteq> on \<longrightarrow> boards w' other = boards w other)
    \<and> fresh w' = fresh w \<and> console w' = console w"
proof -
  let ?w' = "w\<lparr>boards := (boards w)(on := set_cell (boards w on) y x (Some symbol))\<rparr>"
  have "updateBoard symbol at on w = Inr (Updated on, ?w')"
    using assms by (rule updateBoard_vacant)
  moreover have "cell (boards ?w' on) y x = Some symbol"
    using assms(1) by (simp add: set_cell_same)
  moreover have "cell (boards ?w' on) y' x' = cell (boards w on) y' x'"
    if "getPosition at' = Some (y', x')" and "at' \<noteq> at" for at' y' x'
    using assms(1) that by (simp add: set_cell_other)
  ultimately show ?thesis
    by (intro exI [of _ ?w']) simp
qed

theorem updateBoard_in_place_witness:
  "getPosition (Num 5) = Some (1, 1) \<and> cell (boards world0 7) 1 1 = None
   \<and> (\<exists>w'. updateBoard PlayerO (Num 5) 7 world0 = Inr (Updated 7, w')
        \<and> cell (boards w' 7) 1 1 = Some PlayerO
        \<and> cell (boards w' 7) 0 0 = cell (boards world0 7) 0 0
        \<and> boards w' 3 = boards world0 3)"
proof -
  have p: "getPosition (Num 5) = Some (1, 1)" by simp
  have c: "cell (boards world0 7) 1 1 = None"
    by (simp add: world0_def emptyBoard_def cell_def)
  have q: "getPosition (Num 1) = Some (0, 0)" by simp
  have d: "Num 1 \<noteq> Num 5" "(3::nat) \<noteq> 7" by simp_all
  from updateBoard_in_place [OF p c, of PlayerO] obtain w' where
    "updateBoard PlayerO (Num 5) 7 world0 = Inr (Updated 7, w')"
    "cell (boards w' 7) 1 1 = Some PlayerO"
    "\<forall>at' y' x'. getPosition at' = Some (y', x') \<longrightarrow> at' \<noteq> Num 5
        \<longrightarrow> cell (boards w' 7) y' x' = cell (boards world0 7) y' x'"
    "\<forall>other. other \<noteq> 7 \<longrightarrow> boards w' other = boards world0 other"
    by blast
  with p c q d show ?thesis by blast
qed

text \<open>
  C5. For every board, well formed or not, \<^verbatim>\<open>evaluate\<close> composes its result in the
  order vertical, horizontal, diagonal, draw: a vertical winner is returned whatever
  the other scans say, a horizontal one only when there is no vertical one, a diagonal
  one only when there is neither, and the draw exactly when all three scans found
  nothing and all nine cells are claimed.
\<close>

theorem evaluate_precedence:
  "evaluate w board after =
     (case hasWinnerVertical (boards w board) of
        Some s \<Rightarrow> Winner (Some s) board
      | None \<Rightarrow>
          (case hasWinnerHorizontal (boards w board) of
             Some s \<Rightarrow> Winner (Some s) board
           | None \<Rightarrow>
               (case hasWinnerDiagonal (boards w board) of
                  Some s \<Rightarrow> Winner (Some s) board
                | None \<Rightarrow>
                    if claimed_cells (boards w board) = 9 then Winner None board
                    else Placing (opponent after) board)))
   \<and> (evaluate w board after = Winner None board) =
       (hasWinnerVertical (boards w board) = None \<and> hasWinnerHorizontal (boards w board) = None
        \<and> hasWinnerDiagonal (boards w board) = None \<and> claimed_cells (boards w board) = 9)"
  by (simp add: evaluate_unfold split: option.splits)

text \<open>
  C6. For every board with fewer than nine claimed cells and no completed line, and
  every mover, none of the three scans reports a winner, and \<^verbatim>\<open>evaluate\<close> yields the
  Placing state of the mover's opponent on the same board.
\<close>

theorem evaluate_not_full_no_line:
  assumes "claimed_cells (boards w board) < 9" and "\<not> completed_line (boards w board)"
  shows "hasWinnerVertical (boards w board) = None
     \<and> hasWinnerHorizontal (boards w board) = None
     \<and> hasWinnerDiagonal (boards w board) = None
     \<and> evaluate w board after = Placing (opponent after) board
     \<and> opponent PlayerX = PlayerO \<and> opponent PlayerO = PlayerX"
  using assms by (simp add: evaluate_unfold no_line_no_winner opponent_def)

theorem evaluate_not_full_no_line_witness:
  "claimed_cells ((Some PlayerX, None, None), (None, Some PlayerO, None), (None, None, None)) < 9
   \<and> \<not> completed_line
         ((Some PlayerX, None, None), (None, Some PlayerO, None), (None, None, None))
   \<and> evaluate
       (world0\<lparr>boards := \<lambda>_. ((Some PlayerX, None, None), (None, Some PlayerO, None),
                               (None, None, None))\<rparr>) 0 PlayerO
     = Placing PlayerX 0"
  using evaluate_not_full_no_line
    [of "world0\<lparr>boards := \<lambda>_. ((Some PlayerX, None, None), (None, Some PlayerO, None),
                                (None, None, None))\<rparr>" 0 PlayerO]
  by (simp add: claimed_cells_def completed_line_def completed_by_tuple)

text \<open>
  C7. For every full board with no completed line, \<^verbatim>\<open>evaluate\<close> returns the terminal
  state with the draw result on that board, and so no player as winner.
\<close>

theorem evaluate_full_no_line:
  assumes "claimed_cells (boards w board) = 9" and "\<not> completed_line (boards w board)"
  shows "evaluate w board after = Winner None board"
  using assms by (simp add: evaluate_unfold no_line_no_winner)

theorem evaluate_full_no_line_witness:
  "claimed_cells ((Some PlayerX, Some PlayerO, Some PlayerO),
                  (Some PlayerO, Some PlayerX, Some PlayerX),
                  (Some PlayerX, Some PlayerX, Some PlayerO)) = 9
   \<and> \<not> completed_line ((Some PlayerX, Some PlayerO, Some PlayerO),
                        (Some PlayerO, Some PlayerX, Some PlayerX),
                        (Some PlayerX, Some PlayerX, Some PlayerO))
   \<and> evaluate
       (world0\<lparr>boards := \<lambda>_. ((Some PlayerX, Some PlayerO, Some PlayerO),
                               (Some PlayerO, Some PlayerX, Some PlayerX),
                               (Some PlayerX, Some PlayerX, Some PlayerO))\<rparr>) 0 PlayerX
     = Winner None 0"
  using evaluate_full_no_line
    [of "world0\<lparr>boards := \<lambda>_. ((Some PlayerX, Some PlayerO, Some PlayerO),
                                (Some PlayerO, Some PlayerX, Some PlayerX),
                                (Some PlayerX, Some PlayerX, Some PlayerO))\<rparr>" 0 PlayerX]
  by (simp add: claimed_cells_def completed_line_def completed_by_tuple)

text \<open>
  C8. \<^verbatim>\<open>getPosition\<close> maps the nine spaces to the (row, column) pairs of the fixed
  table, 1 to (0,0) through 9 to (2,2), in reading order.
\<close>

theorem getPosition_table:
  "getPosition (Num 1) = Some (0, 0) \<and> getPosition (Num 2) = Some (0, 1)
   \<and> getPosition (Num 3) = Some (0, 2) \<and> getPosition (Num 4) = Some (1, 0)
   \<and> getPosition (Num 5) = Some (1, 1) \<and> getPosition (Num 6) = Some (1, 2)
   \<and> getPosition (Num 7) = Some (2, 0) \<and> getPosition (Num 8) = Some (2, 1)
   \<and> getPosition (Num 9) = Some (2, 2)"
  by simp

text \<open>
  C9. For every board and every space whose cell is claimed, \<^verbatim>\<open>updateBoard\<close> fails
  with the occupied-space error and leaves the store as it was. When the player types
  such a space during Placing(p, board), the engine prints the error and asks again:
  the call continues as the loop on the remaining lines, and if there are none it is
  waiting at a second question, still in state Placing(p, board), the boards unchanged.
\<close>

theorem occupied_space_retried:
  assumes "parseInt input = at" and "getPosition at = Some (y, x)"
    and "cell (boards w on) y x \<noteq> None"
  shows "updateBoard player at on w = Inr (Rejected (occupied_message at), w)
    \<and> transition (Placing player on) (input # rest) w =
        placing player on rest
          (emit (ConsoleError (occupied_message at))
             (emit (Question (prompt player)) (printBoard on w)))
    \<and> transition (Placing player on) [input] w =
        AwaitingInput (Placing player on)
          (emit (Question (prompt player))
             (emit (ConsoleError (occupied_message at))
                (emit (Question (prompt player)) (printBoard on w))))
    \<and> boards (emit (Question (prompt player))
             (emit (ConsoleError (occupied_message at))
                (emit (Question (prompt player)) (printBoard on w)))) = boards w"
proof -
  have "getPosition (parseInt input) = Some (y, x)"
    using assms(1,2) by simp
  moreover have "cell (boards (printBoard on w) on) y x \<noteq> None"
    using assms(3) by simp
  ultimately have "placing player on (input # rest) (printBoard on w) =
      placing player on rest
        (emit (ConsoleError (occupied_message (parseInt input)))
           (emit (Question (prompt player)) (printBoard on w)))" for rest
    by (rule placing_occupied)
  then show ?thesis
    using assms by (simp add: transition_Placing placing_Nil updateBoard_occupied)
qed

theorem occupied_space_retried_witness:
  "parseInt ''5'' = Num 5 \<and> getPosition (Num 5) = Some (1, 1)
   \<and> cell (boards (world0\<lparr>boards := \<lambda>_. ((None, None, None), (None, Some PlayerO, None),
                                           (None, None, None))\<rparr>) 0) 1 1 \<noteq> None
   \<and> updateBoard PlayerX (Num 5) 0
       (world0\<lparr>boards := \<lambda>_. ((None, None, None), (None, Some PlayerO, None),
                               (None, None, None))\<rparr>)
     = Inr (Rejected ''Can't update non-empty space, 5 is already occupied.'',
            world0\<lparr>boards := \<lambda>_. ((None, None, None), (None, Some PlayerO, None),
                                    (None, None, None))\<rparr>)
   \<and> (\<exists>w'. transition (Placing PlayerX 0) [''5'']
          (world0\<lparr>boards := \<lambda>_. ((None, None, None), (None, Some PlayerO, None),
                                  (None, None, None))\<rparr>)
        = AwaitingInput (Placing PlayerX 0) w')"
  using occupied_space_retried
    [of "''5''" "Num 5" 1 1
        "world0\<lparr>boards := \<lambda>_. ((None, None, None), (None, Some PlayerO, None),
                                (None, None, None))\<rparr>" 0 PlayerX "[]"]
  by (simp add: parseInt_examples cell_def occupied_message_def placing_Nil)

text \<open>
  C10. For every board and every player, \<^verbatim>\<open>evaluate\<close> returns a Winner state or a
  Placing state on the board it was given, never Initializing or Evaluating; a call of
  \<^verbatim>\<open>transition\<close> in state Evaluating returns at once with that state, reading no input
  and changing nothing else.
\<close>

theorem evaluate_Winner_or_Placing:
  "((\<exists>won. evaluate w board after = Winner won board)
      \<or> (\<exists>player. evaluate w board after = Placing player board))
   \<and> evaluate w board after \<noteq> Initializing
   \<and> (\<forall>b p. evaluate w board after \<noteq> Evaluating b p)
   \<and> transition (Evaluating board after) lines w = Returned (evaluate w board after) w lines"
  by (simp add: evaluate_unfold transition_def split: option.splits)

end
